theory Spec2Isabelle
  imports Complex_Main "HOL-Library.Multiset"
begin

section \<open>Python values shared by the embedded functions\<close>

text \<open>
  The functions of \<^verbatim>\<open>pyxrf/model/utils.py\<close> and \<^verbatim>\<open>pyxrf/model/fit_spectrum.py\<close> are embedded
  as HOL functions. A float64 is idealised as a \<^typ>\<open>real\<close>: rounding is not modelled, and the
  places where numpy produces \<^verbatim>\<open>inf\<close> or \<^verbatim>\<open>nan\<close> instead of a number are written out
  case by case. An exception is a value of \<open>py_error\<close>, returned as \<open>Inl\<close>.
\<close>

text \<open>The assertion messages of \<^verbatim>\<open>fitting_admm\<close>, with the values they format.\<close>

datatype admm_assertion =
    Ref_spectra_not_2D
  | Points_mismatch nat nat
  | Rate_not_positive real
  | Maxiter_not_positive real
  | Epsilon_not_positive real

datatype py_error =
    ValueError string
  | AttributeError
  | IndexError
  | KeyError
  | ZeroDivisionError
  | AssertionError admm_assertion
  | LinAlgError
  | ExternalError string
  | NonFiniteFloat

text \<open>
  A numpy array: its shape and its elements in row-major order. numpy keeps the number of
  elements equal to the product of the shape (\<open>wf_ndarray\<close>).
\<close>

record ndarray =
  shape :: "nat list"
  elems :: "real list"


definition asize :: "ndarray \<Rightarrow> nat" where
  "asize a = prod_list (shape a)"

section \<open>\<^verbatim>\<open>normalize_data_by_scaler\<close> (utils.py)\<close>

definition count_nonzero :: "real list \<Rightarrow> nat" where
  "count_nonzero xs = length (filter (\<lambda>v. v \<noteq> 0) xs)"

definition np_mean :: "real list \<Rightarrow> real" where
  "np_mean xs = sum_list xs / real (length xs)"

text \<open>
  The function returns either the object \<^verbatim>\<open>data_in\<close> it was given (the same reference,
  also when \<^verbatim>\<open>data_in\<close> is \<^verbatim>\<open>None\<close>) or a newly allocated array.
\<close>

datatype norm_result = Returned_data_in | Fresh_array ndarray

text \<open>Lines 202 to 205: the mean of the nonzero entries, kept away from zero.\<close>

definition s_mean_of :: "real list \<Rightarrow> real" where
  "s_mean_of sc =
     (let s_mean = np_mean (filter (\<lambda>v. v \<noteq> 0) sc)
      in if \<bar>s_mean\<bar> < 1 / 10 ^ 10
         then (if sgn s_mean \<ge> 0 then 1 / 10 ^ 10 else - (1 / 10 ^ 10))
         else s_mean)"

definition normalize_data_by_scaler ::
  "ndarray option \<Rightarrow> ndarray option \<Rightarrow> string option \<Rightarrow> string list option \<Rightarrow> norm_result" where
  "normalize_data_by_scaler data_in scaler data_name name_not_scalable =
     (case data_in of
        None \<Rightarrow> Returned_data_in
      | Some d \<Rightarrow>
        (case scaler of
           None \<Rightarrow> Returned_data_in
         | Some s \<Rightarrow>
             if shape d \<noteq> shape s then Returned_data_in
             else
               let do_scaling0 =
                     (case name_not_scalable of
                        None \<Rightarrow> True
                      | Some names \<Rightarrow>
                          (case data_name of None \<Rightarrow> True | Some nm \<Rightarrow> nm \<notin> set names));
                   n_nonzero = count_nonzero (elems s);
                   do_scaling = (if n_nonzero = 0 then False else do_scaling0)
               in if do_scaling
                  then
                    let scaler' =
                          (if asize d \<noteq> n_nonzero
                           then map (\<lambda>v. if v = 0 then s_mean_of (elems s) else v) (elems s)
                           else elems s)
                    in Fresh_array \<lparr>shape = shape d, elems = map2 (/) (elems d) scaler'\<rparr>
                  else Returned_data_in))"

section \<open>\<^verbatim>\<open>grid_interpolate\<close> (utils.py)\<close>









section \<open>\<^verbatim>\<open>fitting_admm\<close> (utils.py)\<close>

text \<open>
  A matrix is the list of its rows. The dimensions are passed along, so that products with
  an empty dimension have the shape numpy gives them.
\<close>

type_synonym matrix = "real list list"

fun rows_of :: "nat \<Rightarrow> nat \<Rightarrow> real list \<Rightarrow> matrix" where
  "rows_of 0 m xs = []"
| "rows_of (Suc n) m xs = take m xs # rows_of n m (drop m xs)"

definition np_transpose :: "nat \<Rightarrow> nat \<Rightarrow> matrix \<Rightarrow> matrix" where
  "np_transpose n m a = map (\<lambda>j. map (\<lambda>i. a ! i ! j) [0..<n]) [0..<m]"

definition matmul :: "nat \<Rightarrow> nat \<Rightarrow> nat \<Rightarrow> matrix \<Rightarrow> matrix \<Rightarrow> matrix" where
  "matmul n k m a b =
     map (\<lambda>i. map (\<lambda>j. (\<Sum>l\<leftarrow>[0..<k]. a ! i ! l * b ! l ! j)) [0..<m]) [0..<n]"

definition madd :: "matrix \<Rightarrow> matrix \<Rightarrow> matrix" where
  "madd a b = map2 (map2 (+)) a b"

definition msub :: "matrix \<Rightarrow> matrix \<Rightarrow> matrix" where
  "msub a b = map2 (map2 (-)) a b"

definition mscale :: "matrix \<Rightarrow> real \<Rightarrow> matrix" where
  "mscale a r = map (map (\<lambda>v. v * r)) a"

definition clip_min0 :: "matrix \<Rightarrow> matrix" where
  "clip_min0 a = map (map (max 0)) a"

definition np_eye :: "nat \<Rightarrow> matrix" where
  "np_eye n = map (\<lambda>i. map (\<lambda>j. if i = j then 1 else 0) [0..<n]) [0..<n]"

text \<open>\<^verbatim>\<open>np.linalg.norm\<close> of a matrix: the Frobenius norm.\<close>

definition linalg_norm :: "matrix \<Rightarrow> real" where
  "linalg_norm a = sqrt (\<Sum>r\<leftarrow>a. \<Sum>v\<leftarrow>r. v\<^sup>2)"

text \<open>
  The quotient of two float64 scalars of numpy does not raise when the divisor is zero: it
  is infinite or not a number, and every comparison with \<^verbatim>\<open>nan\<close> is false.
\<close>

datatype npfloat = Finite real | PosInf | NegInf | NaN

definition np_true_divide :: "real \<Rightarrow> real \<Rightarrow> npfloat" where
  "np_true_divide a b =
     (if b \<noteq> 0 then Finite (a / b)
      else if a > 0 then PosInf else if a < 0 then NegInf else NaN)"

fun np_less :: "npfloat \<Rightarrow> real \<Rightarrow> bool" where
  "np_less (Finite a) e = (a < e)"
| "np_less PosInf e = False"
| "np_less NegInf e = True"
| "np_less NaN e = False"

record admm_state =
  st_w :: matrix
  st_u :: matrix
  st_convergence :: "npfloat list"
  st_feasibility :: "real list"
  st_n_iter :: nat

text \<open>The body of the loop at index \<open>i\<close>, up to the test for convergence (lines 272 to 282).\<close>

definition admm_iteration ::
  "matrix \<Rightarrow> matrix \<Rightarrow> real \<Rightarrow> nat \<Rightarrow> nat \<Rightarrow> nat \<Rightarrow> admm_state \<Rightarrow> admm_state \<times> npfloat" where
  "admm_iteration m1 z rate n_refs n_pixels i s =
     (let m2 = madd z (mscale (msub (st_w s) (st_u s)) rate);
          x = matmul n_refs n_refs n_pixels m1 m2;
          w_updated = clip_min0 (madd x (st_u s));
          u' = msub (madd (st_u s) x) w_updated;
          conv = np_true_divide (linalg_norm (msub w_updated (st_w s))) (linalg_norm w_updated)
      in (s\<lparr>st_w := w_updated, st_u := u',
            st_convergence := (st_convergence s)[i := conv],
            st_feasibility := (st_feasibility s)[i := linalg_norm (msub x w_updated)]\<rparr>,
          conv))"

text \<open>
  \<^verbatim>\<open>for i in range(maxiter)\<close>: the first argument counts the iterations that are left.
  \<^verbatim>\<open>n_iter\<close> is assigned in the branch that leaves the loop, and nowhere else.
\<close>

fun admm_loop ::
  "matrix \<Rightarrow> matrix \<Rightarrow> real \<Rightarrow> real \<Rightarrow> nat \<Rightarrow> nat \<Rightarrow> nat \<Rightarrow> nat \<Rightarrow> admm_state \<Rightarrow> admm_state" where
  "admm_loop m1 z rate epsilon n_refs n_pixels 0 i s = s"
| "admm_loop m1 z rate epsilon n_refs n_pixels (Suc k) i s =
     (case admm_iteration m1 z rate n_refs n_pixels i s of
        (s', conv) \<Rightarrow>
          if np_less conv epsilon then s'\<lparr>st_n_iter := i + 1\<rparr>
          else admm_loop m1 z rate epsilon n_refs n_pixels k (i + 1) s')"

text \<open>The variables as they are initialised before the loop (lines 260 to 270).\<close>

definition admm_init :: "nat \<Rightarrow> nat \<Rightarrow> int \<Rightarrow> admm_state" where
  "admm_init n_refs n_pixels maxiter =
     \<lparr>st_w = replicate n_refs (replicate n_pixels 1),
      st_u = replicate n_refs (replicate n_pixels 0),
      st_convergence = replicate (nat maxiter) (Finite 0),
      st_feasibility = replicate (nat maxiter) 0,
      st_n_iter = 0\<rparr>"

text \<open>
  \<^verbatim>\<open>np.linalg.inv\<close> is an external function and a parameter of the model; it raises
  \<^verbatim>\<open>LinAlgError\<close> on a singular matrix.
\<close>

definition fitting_admm ::
  "(matrix \<Rightarrow> py_error + matrix) \<Rightarrow> ndarray \<Rightarrow> ndarray \<Rightarrow> real \<Rightarrow> int \<Rightarrow> real
   \<Rightarrow> py_error + (ndarray \<times> npfloat list \<times> real list)" where
  "fitting_admm linalg_inv data ref_spectra rate maxiter epsilon =
     (if length (shape ref_spectra) \<noteq> 2 then Inl (AssertionError Ref_spectra_not_2D)
      else
        (case shape data of
           [] \<Rightarrow> Inl IndexError
         | n_pts # data_dims \<Rightarrow>
             let n_pts_2 = shape ref_spectra ! 0;
                 n_refs = shape ref_spectra ! 1
             in if n_pts \<noteq> n_pts_2
                then Inl (AssertionError (Points_mismatch n_pts n_pts_2))
                else if \<not> rate > 0 then Inl (AssertionError (Rate_not_positive rate))
                else if \<not> maxiter > 0 then Inl (AssertionError (Maxiter_not_positive rate))
                else if \<not> epsilon > 0 then Inl (AssertionError (Epsilon_not_positive rate))
                else
                  let n_pixels = prod_list data_dims;
                      y = rows_of n_pts n_pixels (elems data);
                      A = rows_of n_pts n_refs (elems ref_spectra);
                      At = np_transpose n_pts n_refs A;
                      z = matmul n_refs n_pts n_pixels At y;
                      c = matmul n_refs n_pts n_refs At A;
                      dg = mscale (np_eye n_refs) rate
                  in (case linalg_inv (madd c dg) of
                        Inl e \<Rightarrow> Inl e
                      | Inr m1 \<Rightarrow>
                          let s = admm_loop m1 z rate epsilon n_refs n_pixels (nat maxiter) 0
                                    (admm_init n_refs n_pixels maxiter)
                          in Inr (\<lparr>shape = n_refs # data_dims, elems = concat (st_w s)\<rparr>,
                                  take (st_n_iter s) (st_convergence s),
                                  take (st_n_iter s) (st_feasibility s)))))"

text \<open>
  \<^verbatim>\<open>np.linalg.inv\<close> on the matrices with one row and one column, for the evaluation of
  concrete calls with a single reference spectrum.
\<close>

definition linalg_inv_1x1 :: "matrix \<Rightarrow> py_error + matrix" where
  "linalg_inv_1x1 a =
     (case a of
        [[v]] \<Rightarrow> if v = 0 then Inl LinAlgError else Inr [[1 / v]]
      | _ \<Rightarrow> Inl (ExternalError ''not a 1 x 1 matrix''))"

section \<open>\<^verbatim>\<open>get_branching_ratio\<close> (fit_spectrum.py)\<close>

text \<open>
  \<^verbatim>\<open>str.split(sep)\<close> for a separator that is not empty: the text is cut at the occurrences
  of the separator, found from left to right. The second argument collects, in reverse,
  the characters of the piece being read.
\<close>

function py_split_from :: "string \<Rightarrow> string \<Rightarrow> string \<Rightarrow> string list" where
  "py_split_from sep cur [] = [rev cur]"
| "py_split_from sep cur (c # cs) =
     (if sep \<noteq> [] \<and> take (length sep) (c # cs) = sep
      then rev cur # py_split_from sep [] (drop (length sep) (c # cs))
      else py_split_from sep (c # cur) cs)"
  by pat_completeness auto
termination
  by (relation "measure (\<lambda>(sep, cur, s). length s)") auto

definition py_split :: "string \<Rightarrow> string \<Rightarrow> string list" where
  "py_split sep s = py_split_from sep [] s"

definition py_strip :: "char \<Rightarrow> string \<Rightarrow> string" where
  "py_strip c s = rev (dropWhile (\<lambda>x. x = c) (rev (dropWhile (\<lambda>x. x = c) s)))"







text \<open>Every entry of a matrix is non-negative.\<close>

definition all_nonneg :: "matrix \<Rightarrow> bool" where
  "all_nonneg a = (\<forall>r \<in> set a. \<forall>v \<in> set r. 0 \<le> v)"

section \<open>\<^verbatim>\<open>single_pixel_fitting_controller\<close> (fit_spectrum.py)\<close>

text \<open>
  The spectral cube is a list of rows, each a list of pixels, each the list of the counts
  of its channels; numpy keeps it rectangular. The 3-D arrays live in a store, because the
  controller copies, slices and updates them in place: a cell of the store is the buffer of
  one array, and an allocation takes the next free address. \<^verbatim>\<open>fit_spectrum.py\<close> is Python 2
  code (\<^verbatim>\<open>xrange\<close>, shapes computed with \<^verbatim>\<open>/\<close>), so \<^verbatim>\<open>/\<close> between integers is the integer
  quotient.
\<close>

type_synonym cube = "real list list list"
type_synonym addr = nat

record heap =
  cells :: "addr \<Rightarrow> cube option"
  next_free :: addr

definition alloc :: "heap \<Rightarrow> cube \<Rightarrow> heap \<times> addr" where
  "alloc h d = (h\<lparr>cells := (cells h)(next_free h := Some d), next_free := Suc (next_free h)\<rparr>,
                next_free h)"

text \<open>
  An array object that shares the buffer of another: \<^verbatim>\<open>data[:, :, lowv: highv+1]\<close> is the
  buffer at \<open>base\<close> restricted to the channels from \<open>ch_start\<close> up to \<open>ch_stop\<close>.
\<close>

record view =
  base :: addr
  ch_start :: nat
  ch_stop :: nat

definition slice_channels :: "nat \<Rightarrow> nat \<Rightarrow> real list \<Rightarrow> real list" where
  "slice_channels lo hi sp = take (hi - lo) (drop lo sp)"

definition read_view :: "heap \<Rightarrow> view \<Rightarrow> cube" where
  "read_view h v =
     (case cells h (base v) of
        None \<Rightarrow> []
      | Some d \<Rightarrow> map (map (slice_channels (ch_start v) (ch_stop v))) d)"

text \<open>
  \<^verbatim>\<open>int(v)\<close> of a float rounds towards zero; a bound of a slice that is negative counts from
  the end, and a bound beyond an end is moved to that end.
\<close>

definition py_int :: "real \<Rightarrow> int" where
  "py_int r = (if r \<ge> 0 then \<lfloor>r\<rfloor> else \<lceil>r\<rceil>)"

definition slice_index :: "nat \<Rightarrow> int \<Rightarrow> nat" where
  "slice_index k i = (if i < 0 then nat (max (i + int k) 0) else min (nat i) k)"

text \<open>
  Modelled from the spec: \<^verbatim>\<open>trim\<close> belongs to scikit-beam and its code is not part of the
  sources; the cut keeps the channels inside the window, those with \<open>low \<le> x \<le> high\<close>.
  Only the channel axis it returns is used.
\<close>

definition trim_x :: "nat \<Rightarrow> int \<Rightarrow> int \<Rightarrow> nat list" where
  "trim_x k low high = filter (\<lambda>c. low \<le> int c \<and> int c \<le> high) [0..<k]"

text \<open>
  Lines 1511 to 1549. \<^verbatim>\<open>np.array(exp_data)\<close> allocates a copy; the result of the cut is a view
  of that copy.
\<close>

definition get_cutted_spectrum_in3D ::
  "heap \<Rightarrow> addr \<Rightarrow> real \<Rightarrow> real \<Rightarrow> real \<Rightarrow> real
   \<Rightarrow> heap \<times> (py_error + (nat list \<times> view \<times> int \<times> int))" where
  "get_cutted_spectrum_in3D h exp_data low_e high_e e_offset e_linear =
     (case cells h exp_data of
        None \<Rightarrow> (h, Inl (ExternalError ''no array at this address''))
      | Some d \<Rightarrow>
          (case alloc h d of
             (h1, data) \<Rightarrow>
               (case d of
                  [] \<Rightarrow> (h1, Inl IndexError)
                | r # _ \<Rightarrow>
                    (case r of
                       [] \<Rightarrow> (h1, Inl IndexError)
                     | y0 # _ \<Rightarrow>
                         if e_linear = 0 then (h1, Inl ZeroDivisionError)
                         else
                           let lowv = py_int ((low_e - e_offset) / e_linear);
                               highv = py_int ((high_e - e_offset) / e_linear);
                               x = trim_x (length y0) lowv highv;
                               lo = slice_index (length y0) lowv;
                               hi = slice_index (length y0) (highv + 1)
                           in (h1, Inr (x, \<lparr>base = data, ch_start = lo, ch_stop = hi\<rparr>,
                                        lowv, highv))))))"


text \<open>
  \<^verbatim>\<open>exp_data += raise_bg\<close>: an in-place addition through a view updates the buffer that the
  view points into.
\<close>

definition iadd_view :: "heap \<Rightarrow> view \<Rightarrow> real \<Rightarrow> heap" where
  "iadd_view h v c =
     (case cells h (base v) of
        None \<Rightarrow> h
      | Some d \<Rightarrow>
          h\<lparr>cells := (cells h)(base v := Some
               (map (map (\<lambda>sp. take (ch_start v) sp
                                 @ map (\<lambda>y. y + c) (slice_channels (ch_start v) (ch_stop v) sp)
                                 @ drop (max (ch_start v) (ch_stop v)) sp)) d))\<rparr>)"

text \<open>
  \<^verbatim>\<open>bin_data_spacial\<close> for a 3-D array, lines 842 to 873: the sums over the blocks of
  \<open>bin_size\<close> by \<open>bin_size\<close> pixels go into a new array; rows and columns that do not fill a
  block are left out.
\<close>

definition n_channels :: "view \<Rightarrow> nat" where
  "n_channels v = ch_stop v - ch_start v"

definition add_spectra :: "real list \<Rightarrow> real list \<Rightarrow> real list" where
  "add_spectra a b = map2 (+) a b"

definition sum_block :: "cube \<Rightarrow> nat \<Rightarrow> nat \<Rightarrow> nat \<Rightarrow> nat \<Rightarrow> real list" where
  "sum_block d k b i j =
     foldl add_spectra (replicate k 0)
       (concat (map (\<lambda>di. map (\<lambda>dj. d ! (i * b + di) ! (j * b + dj)) [0..<b]) [0..<b]))"

definition n_cols_of :: "cube \<Rightarrow> nat" where
  "n_cols_of d = (case d of [] \<Rightarrow> 0 | r # _ \<Rightarrow> length r)"

definition bin_cube :: "cube \<Rightarrow> nat \<Rightarrow> nat \<Rightarrow> cube" where
  "bin_cube d k b =
     map (\<lambda>i. map (\<lambda>j. sum_block d k b i j) [0..<n_cols_of d div b]) [0..<length d div b]"

definition bin_data_spacial :: "heap \<Rightarrow> view \<Rightarrow> nat \<Rightarrow> heap \<times> view" where
  "bin_data_spacial h data bin_size =
     (if bin_size \<le> 1 then (h, data)
      else
        (case alloc h (bin_cube (read_view h data) (n_channels data) bin_size) of
           (h', data_new) \<Rightarrow>
             (h', \<lparr>base = data_new, ch_start = 0, ch_stop = n_channels data\<rparr>)))"

text \<open>
  \<^verbatim>\<open>conv_expdata_energy\<close>, lines 876 to 899. \<^verbatim>\<open>np.convolve(a, v, mode='same')\<close> has the length of
  the longer argument, so the assignment to the pixel raises when the spectrum is shorter than
  the kernel (and \<^verbatim>\<open>np.convolve\<close> raises on an empty spectrum).
\<close>

definition np_convolve_same :: "real list \<Rightarrow> real list \<Rightarrow> real list" where
  "np_convolve_same a v =
     (let n = length a; m = length v; off = (m - 1) div 2
      in map (\<lambda>t. (\<Sum>k\<leftarrow>[0..<m].
                      if k \<le> t + off \<and> t + off - k < n then v ! k * a ! (t + off - k) else 0))
             [0..<n])"

definition conv_expdata_energy :: "heap \<Rightarrow> view \<Rightarrow> nat \<Rightarrow> heap \<times> (py_error + view)" where
  "conv_expdata_energy h data width =
     (let d = read_view h data;
          conv_f = replicate width (1 / real width)
      in (case alloc h d of
            (h', data_new) \<Rightarrow>
              if d \<noteq> [] \<and> n_cols_of d \<noteq> 0 \<and> n_channels data < width
              then (h', Inl (ValueError ''convolve: empty input or shapes do not broadcast''))
              else
                (h'\<lparr>cells := (cells h')(data_new := Some (map (map (\<lambda>sp. np_convolve_same sp conv_f)) d))\<rparr>,
                 Inr \<lparr>base = data_new, ch_start = 0, ch_stop = n_channels data\<rparr>)))"


text \<open>
  The regression matrix: one row per channel of the window, one column per component. The
  number of columns is kept, since a matrix without rows still has its columns.
\<close>

record regmat =
  n_cols :: nat
  m_rows :: "real list list"

text \<open>
  The entries of the parameter dictionary that the controller reads itself; the rest of the
  dictionary is the extension of the record and is only passed on.
\<close>

record fit_param =
  energy_bound_low :: real
  energy_bound_high :: real
  e_offset :: real
  e_linear :: real
  element_list :: string

text \<open>
  Lines 1444 to 1450 and 1452 to 1457, and the in-place division of line 1476.
\<close>

definition combine_comp_elastic ::
  "string list \<Rightarrow> regmat \<Rightarrow> py_error + (string list \<times> regmat)" where
  "combine_comp_elastic e_select matv =
     (if length e_select \<le> 1 then Inl IndexError
      else if n_cols matv \<le> 1 then Inl IndexError
      else Inr (butlast (butlast e_select) @ [''comp_elastic''],
                \<lparr>n_cols = n_cols matv - 1,
                 m_rows = map (\<lambda>r. butlast (butlast r) @ [last (butlast r) + last r])
                              (m_rows matv)\<rparr>))"

definition append_const_bkg :: "string list \<Rightarrow> regmat \<Rightarrow> string list \<times> regmat" where
  "append_const_bkg e_select matv =
     (e_select @ [''const_bkg''],
      \<lparr>n_cols = n_cols matv + 1, m_rows = map (\<lambda>r. r @ [1]) (m_rows matv)\<rparr>)"

definition idiv_matrix :: "regmat \<Rightarrow> nat \<Rightarrow> regmat" where
  "idiv_matrix matv n = matv\<lparr>m_rows := map (map (\<lambda>v. v / real n)) (m_rows matv)\<rparr>"

text \<open>
  A list of results is a result: the first error in the order of the list, or the list of
  the values.
\<close>

fun sequence_results :: "(py_error + 'a) list \<Rightarrow> py_error + 'a list" where
  "sequence_results [] = Inr []"
| "sequence_results (r # rs) =
     (case r of
        Inl e \<Rightarrow> Inl e
      | Inr v \<Rightarrow> (case sequence_results rs of Inl e \<Rightarrow> Inl e | Inr vs \<Rightarrow> Inr (v # vs)))"

text \<open>
  The single-spectrum NNLS solver of scikit-beam, with the background subtraction it makes
  when \<^verbatim>\<open>use_snip\<close> is set, is a parameter: from the parameters, \<^verbatim>\<open>use_snip\<close>, the matrix and
  one spectrum it gives the coefficients of the components, followed by the background sum
  and the score of the fit, or it raises.
\<close>

type_synonym 'm nnls_solver =
  "'m fit_param_scheme \<Rightarrow> bool \<Rightarrow> regmat \<Rightarrow> real list \<Rightarrow> py_error + real list"

text \<open>
  Modelled from the spec: \<^verbatim>\<open>fit_per_line_nnls\<close> belongs to scikit-beam and its code is not
  part of the sources. The worker of one row runs the single-spectrum solver (section 4.3) on
  every pixel of the row, in order. It is called as in \<^verbatim>\<open>fit_pixel_multiprocess_nnls\<close>, with
  the index of the row first; \<^verbatim>\<open>fit_per_line_nnls_wrapper\<close>, which passes four arguments, is
  not called by the controller.
\<close>

definition fit_per_line_nnls ::
  "'m nnls_solver \<Rightarrow> nat \<Rightarrow> real list list \<Rightarrow> regmat \<Rightarrow> 'm fit_param_scheme \<Rightarrow> bool
   \<Rightarrow> py_error + real list list" where
  "fit_per_line_nnls nnls_single row_num data matv param use_snip =
     sequence_results (map (nnls_single param use_snip matv) data)"

text \<open>
  Lines 1219 to 1258: one task per row; an exception in a worker is raised again by
  \<^verbatim>\<open>r.get()\<close>, and the rows are collected in the order of their index.
\<close>

definition fit_pixel_multiprocess_nnls ::
  "'m nnls_solver \<Rightarrow> cube \<Rightarrow> regmat \<Rightarrow> 'm fit_param_scheme \<Rightarrow> bool \<Rightarrow> py_error + cube" where
  "fit_pixel_multiprocess_nnls nnls_single exp_data matv param use_snip =
     sequence_results
       (map (\<lambda>n. fit_per_line_nnls nnls_single n (exp_data ! n) matv param use_snip)
            [0..<length exp_data])"

text \<open>
  \<^verbatim>\<open>calculate_area\<close>, lines 1033 to 1073, in the branch \<^verbatim>\<open>first_peak_area=False\<close> that the
  controller takes. \<^verbatim>\<open>np.array(results)\<close> is 3-D only when there is a row and a pixel in it;
  with fewer axes \<^verbatim>\<open>results[:, :, i]\<close> raises.
\<close>

definition mat_sum_of :: "regmat \<Rightarrow> real list" where
  "mat_sum_of matv = map (\<lambda>j. (\<Sum>r\<leftarrow>m_rows matv. r ! j)) [0..<n_cols matv]"

definition plane :: "cube \<Rightarrow> nat \<Rightarrow> real list list" where
  "plane results i = map (map (\<lambda>v. v ! i)) results"

definition calculate_area ::
  "string list \<Rightarrow> regmat \<Rightarrow> cube \<Rightarrow> py_error + (string \<rightharpoonup> real list list)" where
  "calculate_area e_select matv results =
     (if results = [] \<or> n_cols_of results = 0 then Inl IndexError
      else
        let depth = length (hd (hd results));
            total_list = e_select @ [''snip_bkg''] @ [''r_squared''];
            mat_sum = mat_sum_of matv
        in if depth < length e_select \<or> n_cols matv < length e_select \<or> depth < 2
           then Inl IndexError
           else
             let result_map =
                   foldl (\<lambda>m i. m(total_list ! i \<mapsto>
                                     map (map (\<lambda>v. v * mat_sum ! i)) (plane results i)))
                         Map.empty [0..<length e_select]
             in Inr (result_map(''snip_bkg'' \<mapsto> plane results (depth - 2),
                                ''r_squared'' \<mapsto> plane results (depth - 1))))"

text \<open>The dictionary \<^verbatim>\<open>calculation_info\<close> that the controller returns.\<close>

record calculation_info =
  info_error_map :: "(string \<rightharpoonup> real list list) option"
  info_fit_name :: "string list"
  info_regression_mat :: regmat
  info_results :: cube
  info_fit_range :: "int \<times> int"
  info_energy_axis :: "nat list"
  info_exp_data :: view

text \<open>
  \<^verbatim>\<open>construct_linear_model\<close> belongs to scikit-beam and is a parameter: from the channels
  of the window, the parameters and the list of elements it gives the names of the
  components and the regression matrix (the third value it returns is not used). The
  nonlinear branch, lines 1488 to 1495, hands the values of the data to \<^verbatim>\<open>lmfit\<close> in
  worker processes and assembles new dictionaries from what they return; it is a parameter
  too, a function of the values it is given: the data, the channels, the parameters, the
  matrix, \<^verbatim>\<open>use_snip\<close> and the names of the components.
\<close>

type_synonym 'm model_builder =
  "nat list \<Rightarrow> 'm fit_param_scheme \<Rightarrow> string list \<Rightarrow> py_error + (string list \<times> regmat)"

type_synonym 'm nonlinear_fitter =
  "cube \<Rightarrow> nat list \<Rightarrow> 'm fit_param_scheme \<Rightarrow> regmat \<Rightarrow> bool \<Rightarrow> string list
   \<Rightarrow> py_error + ((string \<rightharpoonup> real list list) \<times> (string \<rightharpoonup> real list list) \<times> cube)"

text \<open>Lines 1444 to 1458: the columns of the matrix after the two options.\<close>

definition adjust_matrix ::
  "bool \<Rightarrow> bool \<Rightarrow> string list \<Rightarrow> regmat \<Rightarrow> py_error + (string list \<times> regmat)" where
  "adjust_matrix comp_elastic_combine linear_bg e_select matv =
     (case (if comp_elastic_combine then combine_comp_elastic e_select matv
            else Inr (e_select, matv)) of
        Inl e \<Rightarrow> Inl e
      | Inr (e_select1, matv1) \<Rightarrow>
          Inr (if linear_bg then append_const_bkg e_select1 matv1 else (e_select1, matv1)))"

text \<open>Lines 1461 to 1473: what is done to the data after the cut.\<close>

definition prepare_data ::
  "heap \<Rightarrow> view \<Rightarrow> real \<Rightarrow> int \<Rightarrow> int \<Rightarrow> heap \<times> (py_error + view)" where
  "prepare_data h exp_data raise_bg pixel_bin bin_energy =
     (let h1 = (if raise_bg > 0 then iadd_view h exp_data raise_bg else h);
          (h2, exp_data2) =
             (if pixel_bin = 4 \<or> pixel_bin = 9
              then bin_data_spacial h1 exp_data (if pixel_bin = 4 then 2 else 3)
              else (h1, exp_data))
      in if bin_energy = 2 \<or> bin_energy = 3
         then conv_expdata_energy h2 exp_data2 (nat bin_energy)
         else (h2, Inr exp_data2))"

text \<open>
  Lines 1397 to 1508. When no pixel is left after the binning, \<^verbatim>\<open>matv /= 0\<close> does not raise:
  numpy fills the matrix with \<^verbatim>\<open>inf\<close> and \<^verbatim>\<open>nan\<close>. In the NNLS branch this matrix is never
  returned, because \<^verbatim>\<open>calculate_area\<close> raises on results without pixels. In the nonlinear branch
  the program goes on with values that the reals do not have; \<open>NonFiniteFloat\<close> marks that
  path, which is outside of this model (it is not an exception of the program).
\<close>

definition single_pixel_fitting_controller ::
  "'m model_builder \<Rightarrow> 'm nnls_solver \<Rightarrow> 'm nonlinear_fitter
   \<Rightarrow> heap \<Rightarrow> addr \<Rightarrow> 'm fit_param_scheme \<Rightarrow> string \<Rightarrow> int \<Rightarrow> real \<Rightarrow> bool \<Rightarrow> bool \<Rightarrow> bool \<Rightarrow> int
   \<Rightarrow> heap \<times> (py_error + ((string \<rightharpoonup> real list list) \<times> calculation_info))" where
  "single_pixel_fitting_controller construct_linear_model nnls_single nonlinear_fit
       h input_data param method pixel_bin raise_bg comp_elastic_combine linear_bg use_snip
       bin_energy =
     (case get_cutted_spectrum_in3D h input_data (energy_bound_low param)
             (energy_bound_high param) (e_offset param) (e_linear param) of
        (h1, Inl e) \<Rightarrow> (h1, Inl e)
      | (h1, Inr (x, exp_data0, fit_rng)) \<Rightarrow>
          let elist = map (py_strip CHR '' '') (py_split '', '' (element_list param))
          in (case construct_linear_model x param elist of
                Inl e \<Rightarrow> (h1, Inl e)
              | Inr (e_select0, matv0) \<Rightarrow>
                  (case adjust_matrix comp_elastic_combine linear_bg e_select0 matv0 of
                     Inl e \<Rightarrow> (h1, Inl e)
                   | Inr (e_select, matv1) \<Rightarrow>
                       (case prepare_data h1 exp_data0 raise_bg pixel_bin bin_energy of
                          (h2, Inl e) \<Rightarrow> (h2, Inl e)
                        | (h2, Inr exp_data1) \<Rightarrow>
                            let d = read_view h2 exp_data1;
                                n_pixels = length d * n_cols_of d;
                                matv = idiv_matrix matv1 n_pixels
                            in if method = ''nnls''
                               then
                                 (case fit_pixel_multiprocess_nnls nnls_single d matv param
                                         use_snip of
                                    Inl e \<Rightarrow> (h2, Inl e)
                                  | Inr res \<Rightarrow>
                                      (case calculate_area e_select matv res of
                                         Inl e \<Rightarrow> (h2, Inl e)
                                       | Inr result_map \<Rightarrow>
                                           (h2, Inr (result_map,
                                              \<lparr>info_error_map = None, info_fit_name = e_select,
                                               info_regression_mat = matv, info_results = res,
                                               info_fit_range = fit_rng, info_energy_axis = x,
                                               info_exp_data = exp_data1\<rparr>))))
                               else if n_pixels = 0 then (h2, Inl NonFiniteFloat)
                               else
                                 (case nonlinear_fit d x param (idiv_matrix matv n_pixels)
                                         use_snip e_select of
                                    Inl e \<Rightarrow> (h2, Inl e)
                                  | Inr (result_map, err_map, res) \<Rightarrow>
                                      (h2, Inr (result_map,
                                         \<lparr>info_error_map = Some err_map, info_fit_name = e_select,
                                          info_regression_mat = matv, info_results = res,
                                          info_fit_range = fit_rng, info_energy_axis = x,
                                          info_exp_data = exp_data1\<rparr>)))))))"


text \<open>
  The cells below an address are the same in two stores, and the address is not free in
  the second.
\<close>

definition unchanged_below :: "addr \<Rightarrow> heap \<Rightarrow> heap \<Rightarrow> bool" where
  "unchanged_below n h h' = (n \<le> next_free h' \<and> (\<forall>a<n. cells h' a = cells h a))"


text \<open>
  Stand-ins for the external functions and a small store, for the evaluation of concrete
  calls: a model builder whose matrix has the entry 12 everywhere, with one column per
  element and the two scattering columns; a solver that returns the sum of the spectrum as
  every coefficient, followed by a background of 0 and a score of 1; a store that holds a
  cube of 2 rows, 4 columns and 3 channels at address 0; and parameters that select the
  channels 0 and 1.
\<close>

definition toy_model_builder :: "unit model_builder" where
  "toy_model_builder x param elist =
     Inr (elist @ [''compton'', ''elastic''],
          \<lparr>n_cols = length elist + 2,
           m_rows = map (\<lambda>c. replicate (length elist + 2) 12) x\<rparr>)"

definition toy_nnls :: "unit nnls_solver" where
  "toy_nnls param use_snip matv y = Inr (replicate (n_cols matv) (sum_list y) @ [0, 1])"

definition toy_nonlinear :: "unit nonlinear_fitter" where
  "toy_nonlinear d x param matv use_snip e_select = Inl (ExternalError ''lmfit'')"

definition toy_cube :: cube where
  "toy_cube = [[[1, 2, 9], [3, 4, 9], [5, 6, 9], [7, 8, 9]],
               [[1, 1, 9], [1, 1, 9], [1, 1, 9], [1, 1, 9]]]"

definition toy_heap :: heap where
  "toy_heap = \<lparr>cells = (\<lambda>a. None)(0 := Some toy_cube), next_free = 1\<rparr>"

definition toy_param :: fit_param where
  "toy_param = \<lparr>energy_bound_low = 0, energy_bound_high = 1, e_offset = 0, e_linear = 1,
                element_list = ''Fe_K''\<rparr>"


section \<open>Normalisation by a scaler\<close>

lemma count_nonzero_all_zero: "(\<forall>v \<in> set xs. v = 0) \<Longrightarrow> count_nonzero xs = 0"
  by (induction xs) (auto simp: count_nonzero_def)





text \<open>
  Claim C5. Whenever the scaler is \<^verbatim>\<open>None\<close>, has a shape different from the data, is
  all-zero, or the data name is in the list of names that are not scalable, no normalisation
  is done and the value returned is the object \<^verbatim>\<open>data_in\<close> itself, not a copy.
\<close>

theorem normalize_skipped_returns_data_in:
  "scaler = None
   \<or> (\<exists>d s. data_in = Some d \<and> scaler = Some s \<and> shape d \<noteq> shape s)
   \<or> (\<exists>s. scaler = Some s \<and> (\<forall>v \<in> set (elems s). v = 0))
   \<or> (\<exists>nm names. data_name = Some nm \<and> name_not_scalable = Some names \<and> nm \<in> set names)
   \<Longrightarrow> normalize_data_by_scaler data_in scaler data_name name_not_scalable = Returned_data_in"
  by (auto simp: normalize_data_by_scaler_def Let_def count_nonzero_all_zero
           split: option.splits)

theorem normalize_skipped_returns_data_in_witness:
  "normalize_data_by_scaler (Some \<lparr>shape = [2], elems = [3, 4]\<rparr>) None None None
     = Returned_data_in
   \<and> normalize_data_by_scaler (Some \<lparr>shape = [2], elems = [3, 4]\<rparr>)
        (Some \<lparr>shape = [1, 2], elems = [5, 6]\<rparr>) None None = Returned_data_in
   \<and> normalize_data_by_scaler (Some \<lparr>shape = [2], elems = [3, 4]\<rparr>)
        (Some \<lparr>shape = [2], elems = [0, 0]\<rparr>) None None = Returned_data_in
   \<and> normalize_data_by_scaler (Some \<lparr>shape = [2], elems = [3, 4]\<rparr>)
        (Some \<lparr>shape = [2], elems = [5, 6]\<rparr>) (Some ''time'') (Some [''time'', ''i0_time''])
        = Returned_data_in"
proof -
  have a: "normalize_data_by_scaler (Some \<lparr>shape = [2], elems = [3, 4]\<rparr>) None None None
             = Returned_data_in"
    by (rule normalize_skipped_returns_data_in) simp
  have b: "normalize_data_by_scaler (Some \<lparr>shape = [2], elems = [3, 4]\<rparr>)
             (Some \<lparr>shape = [1, 2], elems = [5, 6]\<rparr>) None None = Returned_data_in"
    by (rule normalize_skipped_returns_data_in) simp
  have c: "normalize_data_by_scaler (Some \<lparr>shape = [2], elems = [3, 4]\<rparr>)
             (Some \<lparr>shape = [2], elems = [0, 0]\<rparr>) None None = Returned_data_in"
    by (rule normalize_skipped_returns_data_in) simp
  have d: "normalize_data_by_scaler (Some \<lparr>shape = [2], elems = [3, 4]\<rparr>)
             (Some \<lparr>shape = [2], elems = [5, 6]\<rparr>) (Some ''time'')
             (Some [''time'', ''i0_time'']) = Returned_data_in"
    by (rule normalize_skipped_returns_data_in) simp
  from a b c d show ?thesis by blast
qed



section \<open>Degenerate grids\<close>




section \<open>The ADMM solver\<close>

lemma linalg_norm_1x1: "linalg_norm [[v]] = \<bar>v\<bar>"
  by (simp add: linalg_norm_def)

lemma admm_iteration_nonneg:
  "all_nonneg (st_w (fst (admm_iteration m1 z rate n_refs n_pixels i s)))"
  by (auto simp: admm_iteration_def Let_def all_nonneg_def clip_min0_def)

lemma admm_loop_nonneg:
  "all_nonneg (st_w s) \<Longrightarrow>
   all_nonneg (st_w (admm_loop m1 z rate epsilon n_refs n_pixels k i s))"
proof (induction k arbitrary: i s)
  case 0
  then show ?case by simp
next
  case (Suc k)
  obtain s' c where sc: "admm_iteration m1 z rate n_refs n_pixels i s = (s', c)"
    by (cases "admm_iteration m1 z rate n_refs n_pixels i s")
  have "all_nonneg (st_w s')"
    using admm_iteration_nonneg [of m1 z rate n_refs n_pixels i s] sc by simp
  then show ?case
    using Suc.IH [of s' "i + 1"] sc by simp
qed

lemma admm_init_nonneg: "all_nonneg (st_w (admm_init n_refs n_pixels maxiter))"
  by (auto simp: admm_init_def all_nonneg_def)

text \<open>
  Claim C3 fails on the code. With one reference spectrum \<open>[[1.0]]\<close>, the data \<open>[2.0]\<close>,
  the default rate \<open>0.2\<close> and tolerance \<open>1e-30\<close> and \<^verbatim>\<open>maxiter=1\<close>, the single iteration
  does not reach the tolerance (its relative change is \<open>5/11\<close>), so \<^verbatim>\<open>n_iter\<close> keeps
  its initial value \<open>0\<close> and both traces are cut to length \<open>0\<close>, although one value
  was recorded in each.
\<close>

theorem fitting_admm_maxiter_1_empty_trace:
  "fitting_admm linalg_inv_1x1 \<lparr>shape = [1], elems = [2]\<rparr> \<lparr>shape = [1, 1], elems = [1]\<rparr>
     (1 / 5) 1 (1 / 10 ^ 30)
   = Inr (\<lparr>shape = [1], elems = [11 / 6]\<rparr>, [], [])"
  by (simp add: fitting_admm_def linalg_inv_1x1_def Let_def matmul_def np_transpose_def
      madd_def msub_def mscale_def np_eye_def clip_min0_def admm_iteration_def
      linalg_norm_1x1 np_true_divide_def admm_init_def)

text \<open>
  Claim C7. A call with \<open>rate \<le> 0\<close>, \<open>maxiter \<le> 0\<close>, \<open>epsilon \<le> 0\<close> or a first axis of
  the data whose length is not the number of rows of the reference matrix fails: the result
  is an error, the same whatever \<^verbatim>\<open>np.linalg.inv\<close> would do (no inverse, product or
  iteration is computed and no partial result is returned), and it is an assertion with its
  message whenever the data array has a first axis.
\<close>

theorem fitting_admm_precondition_violation:
  assumes "rate \<le> 0 \<or> maxiter \<le> 0 \<or> epsilon \<le> 0
           \<or> hd (shape data) \<noteq> hd (shape ref_spectra)"
  shows "\<exists>e. (\<forall>linalg_inv.
                 fitting_admm linalg_inv data ref_spectra rate maxiter epsilon = Inl e)
              \<and> (shape data \<noteq> [] \<longrightarrow> (\<exists>a. e = AssertionError a))"
proof (cases "length (shape ref_spectra) = 2")
  case False
  then show ?thesis by (simp add: fitting_admm_def)
next
  case True
  then obtain a b where ab: "shape ref_spectra = [a, b]"
    by (cases "shape ref_spectra") (auto simp: length_Suc_conv)
  show ?thesis
  proof (cases "shape data")
    case Nil
    then show ?thesis using ab by (simp add: fitting_admm_def)
  next
    case (Cons n ds)
    from assms Cons ab
    consider "n \<noteq> a" | "n = a" "\<not> 0 < rate" | "n = a" "0 < rate" "\<not> 0 < maxiter"
      | "n = a" "0 < rate" "0 < maxiter" "\<not> 0 < epsilon"
      by fastforce
    then show ?thesis
    proof cases
      case 1
      then show ?thesis using Cons ab by (simp add: fitting_admm_def)
    next
      case 2
      then show ?thesis using Cons ab by (simp add: fitting_admm_def)
    next
      case 3
      then show ?thesis using Cons ab by (simp add: fitting_admm_def)
    next
      case 4
      then show ?thesis using Cons ab by (simp add: fitting_admm_def)
    qed
  qed
qed

theorem fitting_admm_precondition_violation_witness:
  "(0 :: int) \<le> 0
   \<and> (\<exists>e. (\<forall>linalg_inv.
              fitting_admm linalg_inv \<lparr>shape = [1], elems = [2]\<rparr>
                \<lparr>shape = [1, 1], elems = [1]\<rparr> (1 / 5) 0 (1 / 10 ^ 30) = Inl e)
           \<and> (\<exists>a. e = AssertionError a))"
  using fitting_admm_precondition_violation
          [of "1 / 5" 0 "1 / 10 ^ 30" "\<lparr>shape = [1], elems = [2]\<rparr>"
              "\<lparr>shape = [1, 1], elems = [1]\<rparr>"]
  by simp

text \<open>
  Claim C8. The constrained variable \<open>w\<close> is non-negative in every entry after each pass
  through the body of the loop, whatever the state the pass started from; and for every input
  that satisfies the preconditions the call either passes on the error of
  \<^verbatim>\<open>np.linalg.inv\<close> or returns weights that are non-negative in every entry.
\<close>

theorem fitting_admm_weights_nonneg:
  assumes "shape data = n_pts # data_dims" and "shape ref_spectra = [n_pts, n_refs]"
    and "rate > 0" and "maxiter > 0" and "epsilon > 0"
  shows "((\<exists>e a. linalg_inv a = Inl e
             \<and> fitting_admm linalg_inv data ref_spectra rate maxiter epsilon = Inl e)
          \<or> (\<exists>w conv feas.
               fitting_admm linalg_inv data ref_spectra rate maxiter epsilon
                 = Inr (w, conv, feas)
               \<and> (\<forall>v \<in> set (elems w). 0 \<le> v)))
         \<and> (\<forall>m1 z i s.
               \<forall>r \<in> set (st_w (fst (admm_iteration m1 z rate n_refs
                                       (prod_list data_dims) i s))).
                 \<forall>v \<in> set r. 0 \<le> v)"
proof -
  let ?np = "prod_list data_dims"
  let ?A = "rows_of n_pts n_refs (elems ref_spectra)"
  let ?At = "np_transpose n_pts n_refs ?A"
  let ?z = "matmul n_refs n_pts ?np ?At (rows_of n_pts ?np (elems data))"
  let ?M = "madd (matmul n_refs n_pts n_refs ?At ?A) (mscale (np_eye n_refs) rate)"
  have step: "\<forall>m1 z i s.
      \<forall>r \<in> set (st_w (fst (admm_iteration m1 z rate n_refs ?np i s))). \<forall>v \<in> set r. 0 \<le> v"
    using admm_iteration_nonneg by (simp add: all_nonneg_def)
  have main: "(\<exists>e a. linalg_inv a = Inl e
                 \<and> fitting_admm linalg_inv data ref_spectra rate maxiter epsilon = Inl e)
     \<or> (\<exists>w conv feas.
           fitting_admm linalg_inv data ref_spectra rate maxiter epsilon = Inr (w, conv, feas)
           \<and> (\<forall>v \<in> set (elems w). 0 \<le> v))"
  proof (cases "linalg_inv ?M")
    case (Inl e)
    then have "fitting_admm linalg_inv data ref_spectra rate maxiter epsilon = Inl e"
      using assms by (simp add: fitting_admm_def Let_def)
    with Inl show ?thesis by blast
  next
    case (Inr m1)
    let ?s = "admm_loop m1 ?z rate epsilon n_refs ?np (nat maxiter) 0
                (admm_init n_refs ?np maxiter)"
    have r: "fitting_admm linalg_inv data ref_spectra rate maxiter epsilon
        = Inr (\<lparr>shape = n_refs # data_dims, elems = concat (st_w ?s)\<rparr>,
               take (st_n_iter ?s) (st_convergence ?s),
               take (st_n_iter ?s) (st_feasibility ?s))"
      using assms Inr by (simp add: fitting_admm_def Let_def)
    have "all_nonneg (st_w ?s)"
      by (rule admm_loop_nonneg) (rule admm_init_nonneg)
    then have "\<forall>v \<in> set (concat (st_w ?s)). 0 \<le> v"
      by (auto simp: all_nonneg_def)
    with r show ?thesis by simp
  qed
  from main step show ?thesis by blast
qed

theorem fitting_admm_weights_nonneg_witness:
  "\<exists>w conv feas.
     fitting_admm linalg_inv_1x1 \<lparr>shape = [1], elems = [- 3]\<rparr>
       \<lparr>shape = [1, 1], elems = [1]\<rparr> (1 / 5) 2 (1 / 10 ^ 30) = Inr (w, conv, feas)
     \<and> (\<forall>v \<in> set (elems w). 0 \<le> v)"
proof -
  have ok: "\<And>e. fitting_admm linalg_inv_1x1 \<lparr>shape = [1], elems = [- 3]\<rparr>
       \<lparr>shape = [1, 1], elems = [1]\<rparr> (1 / 5) 2 (1 / 10 ^ 30) \<noteq> Inl e"
    by (simp add: fitting_admm_def linalg_inv_1x1_def Let_def matmul_def np_transpose_def
        madd_def mscale_def np_eye_def)
  show ?thesis
    using fitting_admm_weights_nonneg
            [of "\<lparr>shape = [1], elems = [- 3]\<rparr>" 1 "[]" "\<lparr>shape = [1, 1], elems = [1]\<rparr>" 1
                "1 / 5" 2 "1 / 10 ^ 30" linalg_inv_1x1]
          ok
    by simp
qed

section \<open>The branching ratio\<close>






section \<open>The pixel-fitting controller: what happens to the store\<close>

lemma unchanged_below_refl: "n \<le> next_free h \<Longrightarrow> unchanged_below n h h"
  by (simp add: unchanged_below_def)

lemma unchanged_below_trans:
  "unchanged_below n h h1 \<Longrightarrow> unchanged_below n h1 h2 \<Longrightarrow> unchanged_below n h h2"
  by (simp add: unchanged_below_def)

lemma iadd_view_unchanged:
  "n \<le> next_free h \<Longrightarrow> n \<le> base v \<Longrightarrow> unchanged_below n h (iadd_view h v c)"
  by (auto simp: iadd_view_def unchanged_below_def split: option.splits)

lemma bin_data_spacial_unchanged:
  assumes "n \<le> next_free h" and "n \<le> base v" and "bin_data_spacial h v b = (h', v')"
  shows "unchanged_below n h h' \<and> n \<le> base v'"
  using assms
  by (auto simp: bin_data_spacial_def alloc_def unchanged_below_def split: if_splits)

lemma conv_expdata_energy_unchanged:
  assumes "n \<le> next_free h" and "conv_expdata_energy h v w = (h', r)"
  shows "unchanged_below n h h'"
  using assms
  by (auto simp: conv_expdata_energy_def alloc_def unchanged_below_def Let_def split: if_splits)

lemma get_cutted_unchanged:
  assumes "get_cutted_spectrum_in3D h a lo hi off lin = (h', r)"
  shows "unchanged_below (next_free h) h h'
         \<and> (\<forall>x v rng. r = Inr (x, v, rng) \<longrightarrow> base v = next_free h)"
  using assms
  by (auto simp: get_cutted_spectrum_in3D_def alloc_def unchanged_below_def Let_def
           split: option.splits list.splits if_splits)

lemma prepare_data_unchanged:
  assumes "n \<le> next_free h" and "n \<le> base v"
    and "prepare_data h v raise_bg pixel_bin bin_energy = (h', r)"
  shows "unchanged_below n h h'"
proof -
  let ?h1 = "if raise_bg > 0 then iadd_view h v raise_bg else h"
  have u1: "unchanged_below n h ?h1"
    using assms(1,2) by (simp add: iadd_view_unchanged unchanged_below_refl)
  then have n1: "n \<le> next_free ?h1" by (simp add: unchanged_below_def)
  obtain h2 v2 where b: "(if pixel_bin = 4 \<or> pixel_bin = 9
              then bin_data_spacial ?h1 v (if pixel_bin = 4 then 2 else 3)
              else (?h1, v)) = (h2, v2)"
    by (cases "(if pixel_bin = 4 \<or> pixel_bin = 9
              then bin_data_spacial ?h1 v (if pixel_bin = 4 then 2 else 3)
              else (?h1, v))")
  have u2: "unchanged_below n ?h1 h2"
  proof (cases "pixel_bin = 4 \<or> pixel_bin = 9")
    case True
    then have "bin_data_spacial ?h1 v (if pixel_bin = 4 then 2 else 3) = (h2, v2)"
      using b by simp
    then show ?thesis using bin_data_spacial_unchanged [OF n1 assms(2)] by blast
  next
    case False
    then show ?thesis using b n1 by (auto simp: unchanged_below_refl)
  qed
  then have n2: "n \<le> next_free h2" by (simp add: unchanged_below_def)
  have r: "(if bin_energy = 2 \<or> bin_energy = 3
         then conv_expdata_energy h2 v2 (nat bin_energy)
         else (h2, Inr v2)) = (h', r)"
    using assms(3) b unfolding prepare_data_def Let_def by simp
  have u3: "unchanged_below n h2 h'"
  proof (cases "bin_energy = 2 \<or> bin_energy = 3")
    case True
    then show ?thesis using r conv_expdata_energy_unchanged [OF n2] by simp
  next
    case False
    then show ?thesis using r n2 by (auto simp: unchanged_below_refl)
  qed
  from u1 u2 u3 show ?thesis by (blast intro: unchanged_below_trans)
qed

lemma controller_heap:
  "\<exists>h1 r1. get_cutted_spectrum_in3D h a (energy_bound_low param)
             (energy_bound_high param) (e_offset param) (e_linear param) = (h1, r1)
     \<and> (fst (single_pixel_fitting_controller clm nnls nl h a param meth pixel_bin raise_bg
            cmb lbg snp bin_energy) = h1
         \<or> (\<exists>x v rng. r1 = Inr (x, v, rng)
              \<and> fst (single_pixel_fitting_controller clm nnls nl h a param meth pixel_bin
                       raise_bg cmb lbg snp bin_energy)
                = fst (prepare_data h1 v raise_bg pixel_bin bin_energy)))"
proof -
  let ?C = "single_pixel_fitting_controller clm nnls nl h a param meth pixel_bin raise_bg
            cmb lbg snp bin_energy"
  obtain h1 r1 where c: "get_cutted_spectrum_in3D h a (energy_bound_low param)
             (energy_bound_high param) (e_offset param) (e_linear param) = (h1, r1)"
    by (cases "get_cutted_spectrum_in3D h a (energy_bound_low param)
             (energy_bound_high param) (e_offset param) (e_linear param)")
  have "fst ?C = h1 \<or> (\<exists>x v rng. r1 = Inr (x, v, rng)
              \<and> fst ?C = fst (prepare_data h1 v raise_bg pixel_bin bin_energy))"
  proof (cases r1)
    case (Inl e)
    then show ?thesis using c by (simp add: single_pixel_fitting_controller_def)
  next
    case (Inr t)
    obtain x v rng where t: "t = (x, v, rng)" by (cases t)
    let ?el = "map (py_strip CHR '' '') (py_split '', '' (element_list param))"
    show ?thesis
    proof (cases "clm x param ?el")
      case (Inl e)
      then show ?thesis using c Inr t by (simp add: single_pixel_fitting_controller_def)
    next
      case r2: (Inr em)
      obtain e0 m0 where em: "em = (e0, m0)" by (cases em)
      show ?thesis
      proof (cases "adjust_matrix cmb lbg e0 m0")
        case (Inl e)
        then show ?thesis using c Inr t r2 em
          by (simp add: single_pixel_fitting_controller_def)
      next
        case r3: (Inr em1)
        obtain es m1 where em1: "em1 = (es, m1)" by (cases em1)
        obtain h2 r4 where p: "prepare_data h1 v raise_bg pixel_bin bin_energy = (h2, r4)"
          by (cases "prepare_data h1 v raise_bg pixel_bin bin_energy")
        have "fst ?C = h2"
          using c Inr t r2 em r3 em1 p
          by (simp add: single_pixel_fitting_controller_def Let_def
                   split: sum.splits prod.splits)
        then show ?thesis using Inr t p by simp
      qed
    qed
  qed
  with c show ?thesis by blast
qed


text \<open>
  Claim C10. The controller does not change any array that exists when it is called, the
  input cube among them: every cell of the store below the first free address holds after the
  call what it held before, for every input and every combination of the options, whether
  the call returns or raises. The in-place addition of \<^verbatim>\<open>raise_bg\<close> goes to the copy made by
  the cut, and the binning and the convolution write to arrays of their own.
\<close>

theorem controller_leaves_caller_arrays_unchanged:
  assumes "a < next_free h"
  shows "cells (fst (single_pixel_fitting_controller clm nnls nl h input_data param meth
                       pixel_bin raise_bg cmb lbg snp bin_energy)) a = cells h a"
proof -
  let ?h' = "fst (single_pixel_fitting_controller clm nnls nl h input_data param meth
                    pixel_bin raise_bg cmb lbg snp bin_energy)"
  obtain h1 r1 where c: "get_cutted_spectrum_in3D h input_data (energy_bound_low param)
             (energy_bound_high param) (e_offset param) (e_linear param) = (h1, r1)"
    and d: "?h' = h1 \<or> (\<exists>x v rng. r1 = Inr (x, v, rng)
              \<and> ?h' = fst (prepare_data h1 v raise_bg pixel_bin bin_energy))"
    using controller_heap [of h input_data param clm nnls nl meth pixel_bin raise_bg
                             cmb lbg snp bin_energy]
    by blast
  have u1: "unchanged_below (next_free h) h h1"
    and bv: "\<forall>x v rng. r1 = Inr (x, v, rng) \<longrightarrow> base v = next_free h"
    using get_cutted_unchanged [OF c] by blast+
  have "unchanged_below (next_free h) h ?h'"
  proof -
    from d show ?thesis
    proof
      assume "?h' = h1"
      with u1 show ?thesis by simp
    next
      assume "\<exists>x v rng. r1 = Inr (x, v, rng)
              \<and> ?h' = fst (prepare_data h1 v raise_bg pixel_bin bin_energy)"
      then obtain x v rng where r1: "r1 = Inr (x, v, rng)"
        and e: "?h' = fst (prepare_data h1 v raise_bg pixel_bin bin_energy)" by blast
      have n1: "next_free h \<le> next_free h1" using u1 by (simp add: unchanged_below_def)
      have b: "next_free h \<le> base v" using bv r1 by simp
      have "unchanged_below (next_free h) h1
              (fst (prepare_data h1 v raise_bg pixel_bin bin_energy))"
        using prepare_data_unchanged [OF n1 b, of raise_bg pixel_bin bin_energy]
        by (metis prod.collapse)
      with u1 e show ?thesis by (metis unchanged_below_trans)
    qed
  qed
  then show ?thesis using assms by (simp add: unchanged_below_def)
qed

theorem controller_leaves_caller_arrays_unchanged_witness:
  "cells (fst (single_pixel_fitting_controller toy_model_builder toy_nnls toy_nonlinear
                 toy_heap 0 toy_param ''nnls'' 9 5 True True True 3)) 0 = Some toy_cube"
proof -
  have "0 < next_free toy_heap"
    by (simp add: toy_heap_def)
  from controller_leaves_caller_arrays_unchanged [OF this]
  show ?thesis
    by (simp add: toy_heap_def)
qed

section \<open>The pixel-fitting controller: what it computes\<close>




























end
